theory Spec2Isabelle
  imports Main
begin

section \<open>RTL language auto-detection (rtl-detector.js)\<close>

text \<open>
  A shallow embedding of \<^verbatim>\<open>src/rtl-detector.js\<close>. Language codes, attribute values and
  class tokens are \<open>string\<close>s; a \<open>char\<close> is read as one UTF-16 code unit below
  U+0100, which covers every language tag the script compares against. An attribute that
  is not set reads as \<open>None\<close> (\<^verbatim>\<open>getAttribute\<close> returns \<^verbatim>\<open>null\<close>).
\<close>

subsection \<open>String primitives of the host language\<close>

definition toLowerCase_char :: "char \<Rightarrow> char" where
  \<comment> \<open>Lower-casing of one code unit: A-Z, and the Latin-1 capitals U+00C0..U+00DE
      except the multiplication sign U+00D7.\<close>
  "toLowerCase_char c =
     (let n = (of_char c :: nat)
      in if (65 \<le> n \<and> n \<le> 90) \<or> (192 \<le> n \<and> n \<le> 222 \<and> n \<noteq> 215)
         then char_of (n + 32) else c)"

definition toLowerCase :: "string \<Rightarrow> string" where
  "toLowerCase s = map toLowerCase_char s"

fun split_str :: "char \<Rightarrow> string \<Rightarrow> string list" where
  \<comment> \<open>\<^verbatim>\<open>s.split(sep)\<close> for a one-character separator: never the empty array.\<close>
  "split_str sep [] = [[]]"
| "split_str sep (c # cs) =
     (if c = sep then [] # split_str sep cs
      else (case split_str sep cs of
              [] \<Rightarrow> [[c]]
            | x # xs \<Rightarrow> (c # x) # xs))"

definition index0 :: "'a list \<Rightarrow> 'a option" where
  \<comment> \<open>\<^verbatim>\<open>xs[0]\<close>: \<^verbatim>\<open>undefined\<close> on the empty array.\<close>
  "index0 xs = (case xs of [] \<Rightarrow> None | x # _ \<Rightarrow> Some x)"

definition includes_arr :: "'a list \<Rightarrow> 'a option \<Rightarrow> bool" where
  \<comment> \<open>\<^verbatim>\<open>xs.includes(v)\<close> on an array of strings: \<^verbatim>\<open>undefined\<close> is no element.\<close>
  "includes_arr xs v = (case v of None \<Rightarrow> False | Some x \<Rightarrow> x \<in> set xs)"

subsection \<open>Classifier\<close>

definition RTL_LANGUAGES :: "string list" where
  "RTL_LANGUAGES =
     [''ar'', ''arc'', ''dv'', ''fa'', ''ha'', ''he'', ''khw'',
      ''ks'', ''ku'', ''ps'', ''sd'', ''ur'', ''uz'', ''yi'']"

definition isRTLLanguage :: "string option \<Rightarrow> bool" where
  "isRTLLanguage lang =
     (case lang of
        None \<Rightarrow> False
      | Some l \<Rightarrow>
          if l = [] then False
          else (let baseLang = index0 (split_str (CHR ''-'') (toLowerCase l))
                in includes_arr RTL_LANGUAGES baseLang))"

definition primary_subtag :: "string \<Rightarrow> string" where
  \<comment> \<open>The specification's reading: the lower-cased code up to its first hyphen.\<close>
  "primary_subtag l = takeWhile (\<lambda>c. c \<noteq> CHR ''-'') (toLowerCase l)"

subsection \<open>Document and host state\<close>

text \<open>
  The script owns no state of its own: everything it reads and writes belongs to the host
  document. The record below holds the part of the host the script touches: the root
  element's attributes and class tokens, the class tokens of every other element (for
  \<^verbatim>\<open>querySelector\<close>), the optional selector control, the registered listeners,
  observers and timers, and the console.
\<close>

datatype js_error = Thrown string

datatype ready_state = Loading | Interactive | Complete

datatype callback =
    InitRTLDetection
  | SetupLanguageSwitcher
  | SwitcherChanged
  | DetectAndApplyLayout
  | SweepTick

datatype observer =
    AttributeObserver "string list"  \<comment> \<open>on the root element, with its \<^verbatim>\<open>attributeFilter\<close>\<close>
  | SubtreeObserver                  \<comment> \<open>on the body, \<^verbatim>\<open>childList\<close> and \<^verbatim>\<open>subtree\<close>\<close>

record mutation_record =
  mtype :: string
  attributeName :: "string option"

record world =
  lang_attr :: "string option"
  dir_attr :: "string option"
  classList :: "string list"
  other_elements :: "string list list"
  readyState :: ready_state
  dcl_fired :: bool
  languageSwitcher :: "string option"
  change_listeners :: "callback list"
  dcl_listeners :: "callback list"
  observers :: "observer list"
  timeouts :: "(callback \<times> nat) list"
  intervals :: "(callback \<times> nat) list"
  console :: "string list"
  rtlDetector_exported :: bool

type_synonym hook = "string option \<Rightarrow> world \<Rightarrow> js_error option \<times> world"

datatype global_value = Undefined | NotCallable | Function hook

subsection \<open>Host operations\<close>

definition console_log :: "string \<Rightarrow> world \<Rightarrow> world" where
  "console_log line w = w\<lparr>console := console w @ [line]\<rparr>"

definition show_value :: "string option \<Rightarrow> string" where
  "show_value v = (case v of None \<Rightarrow> ''null'' | Some s \<Rightarrow> s)"

definition classList_add :: "string \<Rightarrow> string list \<Rightarrow> string list" where
  \<comment> \<open>A token list is an ordered set: a token already there is not added again.\<close>
  "classList_add c cs = (if c \<in> set cs then cs else cs @ [c])"

definition classList_remove :: "string \<Rightarrow> string list \<Rightarrow> string list" where
  "classList_remove c cs = filter (\<lambda>x. x \<noteq> c) cs"

definition querySelector_class :: "string \<Rightarrow> world \<Rightarrow> string list option" where
  \<comment> \<open>\<^verbatim>\<open>document.querySelector('.c')\<close>: the first element in tree order, the root
      included, that carries the class; the element is given by its class tokens.\<close>
  "querySelector_class c w = find (\<lambda>cs. c \<in> set cs) (classList w # other_elements w)"

definition setTimeout :: "callback \<Rightarrow> nat \<Rightarrow> world \<Rightarrow> world" where
  "setTimeout cb ms w = w\<lparr>timeouts := timeouts w @ [(cb, ms)]\<rparr>"

definition setInterval :: "callback \<Rightarrow> nat \<Rightarrow> world \<Rightarrow> world" where
  "setInterval cb ms w = w\<lparr>intervals := intervals w @ [(cb, ms)]\<rparr>"

definition observe :: "observer \<Rightarrow> world \<Rightarrow> world" where
  "observe ob w = w\<lparr>observers := observers w @ [ob]\<rparr>"

definition addEventListener_DOMContentLoaded :: "callback \<Rightarrow> world \<Rightarrow> world" where
  "addEventListener_DOMContentLoaded cb w = w\<lparr>dcl_listeners := dcl_listeners w @ [cb]\<rparr>"

definition addEventListener_change :: "callback \<Rightarrow> world \<Rightarrow> world" where
  "addEventListener_change cb w = w\<lparr>change_listeners := change_listeners w @ [cb]\<rparr>"

fun forEach ::
  "('a \<Rightarrow> world \<Rightarrow> js_error option \<times> world) \<Rightarrow> 'a list \<Rightarrow> world \<Rightarrow> js_error option \<times> world"
where
  \<comment> \<open>\<^verbatim>\<open>xs.forEach(f)\<close>: an exception thrown by \<open>f\<close> ends the iteration.\<close>
  "forEach f [] w = (None, w)"
| "forEach f (x # xs) w =
     (case f x w of
        (None, w') \<Rightarrow> forEach f xs w'
      | (Some e, w') \<Rightarrow> (Some e, w'))"

subsection \<open>Applier\<close>

definition applyRTL :: "world \<Rightarrow> world" where
  "applyRTL w =
     console_log ''RTL layout applied''
       (w\<lparr>dir_attr := Some ''rtl'',
          classList := classList_add ''rtl-mode'' (classList w)\<rparr>)"

definition applyLTR :: "world \<Rightarrow> world" where
  "applyLTR w =
     console_log ''LTR layout applied''
       (w\<lparr>dir_attr := Some ''ltr'',
          classList := classList_remove ''rtl-mode'' (classList w)\<rparr>)"

subsection \<open>Reconcile\<close>

definition detectAndApplyLayout :: "global_value \<Rightarrow> world \<Rightarrow> js_error option \<times> world" where
  \<comment> \<open>The first argument is the value of \<^verbatim>\<open>window.translatePage\<close> at the call.\<close>
  "detectAndApplyLayout translatePage w =
     (let currentLang = lang_attr w;
          w1 = (if isRTLLanguage currentLang then applyRTL w else applyLTR w)
      in case translatePage of
           Function f \<Rightarrow> f currentLang w1
         | _ \<Rightarrow> (None, w1))"

subsection \<open>Triggers\<close>

definition on_mutation :: "global_value \<Rightarrow> mutation_record \<Rightarrow> world \<Rightarrow> js_error option \<times> world" where
  "on_mutation translatePage mutation w =
     (if mtype mutation = ''attributes'' \<and> attributeName mutation = Some ''lang''
      then detectAndApplyLayout translatePage
             (console_log (''Language changed to: '' @ show_value (lang_attr w)) w)
      else (None, w))"

definition language_observer_callback ::
  "global_value \<Rightarrow> mutation_record list \<Rightarrow> world \<Rightarrow> js_error option \<times> world" where
  "language_observer_callback translatePage mutations w =
     forEach (on_mutation translatePage) mutations w"

definition observeLanguageChanges :: "world \<Rightarrow> world" where
  "observeLanguageChanges w =
     console_log ''Language change observer started''
       (observe (AttributeObserver [''lang'']) w)"

definition body_observer_callback :: "mutation_record list \<Rightarrow> world \<Rightarrow> world" where
  \<comment> \<open>The callback takes no parameter: the batch itself is never looked at.\<close>
  "body_observer_callback mutations w =
     (let translateElement = querySelector_class ''goog-te-banner-frame'' w
      in if translateElement \<noteq> None then setTimeout DetectAndApplyLayout 500 w else w)"

definition observeGoogleTranslate :: "world \<Rightarrow> world" where
  "observeGoogleTranslate w = observe SubtreeObserver w"

definition sweep :: "world \<Rightarrow> world" where
  \<comment> \<open>The body of the \<^verbatim>\<open>setInterval\<close> callback of \<^verbatim>\<open>initRTLDetection\<close>.\<close>
  "sweep w =
     (let lang = lang_attr w;
          dir = dir_attr w;
          shouldBeRTL = isRTLLanguage lang
      in if shouldBeRTL \<and> dir \<noteq> Some ''rtl'' then applyRTL w
         else if \<not> shouldBeRTL \<and> dir = Some ''rtl'' then applyLTR w
         else w)"

definition initRTLDetection :: "global_value \<Rightarrow> world \<Rightarrow> js_error option \<times> world" where
  "initRTLDetection translatePage w =
     (case detectAndApplyLayout translatePage
             (console_log ''Initializing RTL auto-detection...'' w) of
        (Some e, w1) \<Rightarrow> (Some e, w1)
      | (None, w1) \<Rightarrow>
          (None,
           console_log ''RTL auto-detection initialized successfully''
             (setInterval SweepTick 1000
               (observeGoogleTranslate (observeLanguageChanges w1)))))"

subsection \<open>Manual switch handler\<close>

definition switcher_changed :: "world \<Rightarrow> world" where
  \<comment> \<open>The change listener; \<^verbatim>\<open>this\<close> is the control, so the control exists when it runs.\<close>
  "switcher_changed w =
     (case languageSwitcher w of
        None \<Rightarrow> w
      | Some selectedLang \<Rightarrow>
          console_log (''Language manually switched to: '' @ selectedLang)
            (w\<lparr>lang_attr := Some selectedLang\<rparr>))"

definition setup_language_switcher :: "world \<Rightarrow> world" where
  \<comment> \<open>The second \<^verbatim>\<open>DOMContentLoaded\<close> listener of the script.\<close>
  "setup_language_switcher w =
     (case languageSwitcher w of
        None \<Rightarrow> w
      | Some _ \<Rightarrow>
          console_log ''Language switcher initialized''
            (addEventListener_change SwitcherChanged w))"

subsection \<open>Top level of the script and the host's event dispatch\<close>

definition script :: "global_value \<Rightarrow> world \<Rightarrow> js_error option \<times> world" where
  \<comment> \<open>The statements at the top level, in order; an exception ends the script.\<close>
  "script translatePage w =
     (case (if readyState w = Loading
            then (None, addEventListener_DOMContentLoaded InitRTLDetection w)
            else initRTLDetection translatePage w) of
        (Some e, w1) \<Rightarrow> (Some e, w1)
      | (None, w1) \<Rightarrow>
          (None,
           (addEventListener_DOMContentLoaded SetupLanguageSwitcher w1)
             \<lparr>rtlDetector_exported := True\<rparr>))"

definition run_callback :: "global_value \<Rightarrow> callback \<Rightarrow> world \<Rightarrow> js_error option \<times> world" where
  "run_callback translatePage cb w =
     (case cb of
        InitRTLDetection \<Rightarrow> initRTLDetection translatePage w
      | SetupLanguageSwitcher \<Rightarrow> (None, setup_language_switcher w)
      | SwitcherChanged \<Rightarrow> (None, switcher_changed w)
      | DetectAndApplyLayout \<Rightarrow> detectAndApplyLayout translatePage w
      | SweepTick \<Rightarrow> (None, sweep w))"

fun dispatch :: "global_value \<Rightarrow> callback list \<Rightarrow> world \<Rightarrow> world" where
  \<comment> \<open>Event dispatch: each listener runs in turn; an exception thrown by one is reported
      by the host and does not stop the others.\<close>
  "dispatch translatePage [] w = w"
| "dispatch translatePage (cb # cbs) w =
     dispatch translatePage cbs (snd (run_callback translatePage cb w))"

definition domContentLoaded :: "global_value \<Rightarrow> world \<Rightarrow> world" where
  "domContentLoaded translatePage w =
     dispatch translatePage (dcl_listeners w)
       (w\<lparr>readyState := Interactive, dcl_fired := True\<rparr>)"

definition startup :: "global_value \<Rightarrow> world \<Rightarrow> world" where
  \<comment> \<open>The script runs; the host then dispatches \<^verbatim>\<open>DOMContentLoaded\<close> unless it had
      already done so before the script ran.\<close>
  "startup translatePage w =
     (let w1 = snd (script translatePage w)
      in if dcl_fired w1 then w1 else domContentLoaded translatePage w1)"

definition change_event :: "global_value \<Rightarrow> string \<Rightarrow> world \<Rightarrow> world" where
  \<comment> \<open>The user picks \<open>v\<close> in the control: its value changes, its listeners run.\<close>
  "change_event translatePage v w =
     (case languageSwitcher w of
        None \<Rightarrow> w
      | Some _ \<Rightarrow>
          dispatch translatePage (change_listeners w) (w\<lparr>languageSwitcher := Some v\<rparr>))"

definition fire_timeout :: "global_value \<Rightarrow> world \<Rightarrow> js_error option \<times> world" where
  \<comment> \<open>The oldest pending timeout comes due: it is removed, then its callback runs.\<close>
  "fire_timeout translatePage w =
     (case timeouts w of
        [] \<Rightarrow> (None, w)
      | (cb, ms) # rest \<Rightarrow> run_callback translatePage cb (w\<lparr>timeouts := rest\<rparr>))"

definition external_write_lang :: "world \<Rightarrow> string option \<Rightarrow> world" where
  \<comment> \<open>Another program sets (\<open>Some\<close>) or removes (\<open>None\<close>) the root's language attribute.\<close>
  "external_write_lang w v = w\<lparr>lang_attr := v\<rparr>"

subsection \<open>Predicates and fixtures used in the statements\<close>

definition direction_matches :: "world \<Rightarrow> bool" where
  "direction_matches w = ((dir_attr w = Some ''rtl'') = isRTLLanguage (lang_attr w))"

definition marker_matches :: "world \<Rightarrow> bool" where
  "marker_matches w = ((''rtl-mode'' \<in> set (classList w)) = isRTLLanguage (lang_attr w))"

definition is_lang_mutation :: "mutation_record \<Rightarrow> bool" where
  "is_lang_mutation m = (mtype m = ''attributes'' \<and> attributeName m = Some ''lang'')"

definition widget_present :: "world \<Rightarrow> bool" where
  \<comment> \<open>Some element of the document carries the widget's frame class.\<close>
  "widget_present w =
     (''goog-te-banner-frame'' \<in> set (concat (classList w # other_elements w)))"

definition applied_layout :: "world \<Rightarrow> world" where
  \<comment> \<open>The world after the applier that the classifier's verdict selects.\<close>
  "applied_layout w = (if isRTLLanguage (lang_attr w) then applyRTL w else applyLTR w)"

fun reconcile_times :: "global_value \<Rightarrow> nat \<Rightarrow> world \<Rightarrow> js_error option \<times> world" where
  \<comment> \<open>Log and reconcile \<open>n\<close> times in a row, stopping at the first exception.\<close>
  "reconcile_times translatePage 0 w = (None, w)"
| "reconcile_times translatePage (Suc n) w =
     (case detectAndApplyLayout translatePage
             (console_log (''Language changed to: '' @ show_value (lang_attr w)) w) of
        (None, w') \<Rightarrow> reconcile_times translatePage n w'
      | (Some e, w') \<Rightarrow> (Some e, w'))"

definition lang_mutation :: mutation_record where
  "lang_mutation = \<lparr>mtype = ''attributes'', attributeName = Some ''lang''\<rparr>"

definition class_mutation :: mutation_record where
  "class_mutation = \<lparr>mtype = ''attributes'', attributeName = Some ''class''\<rparr>"

definition blank_page :: world where
  "blank_page =
     \<lparr>lang_attr = Some ''en'', dir_attr = None, classList = [], other_elements = [],
      readyState = Loading, dcl_fired = False, languageSwitcher = None,
      change_listeners = [], dcl_listeners = [], observers = [], timeouts = [],
      intervals = [], console = [], rtlDetector_exported = False\<rparr>"

definition loading_page_with_switcher :: world where
  \<comment> \<open>The script runs while the document is still being parsed.\<close>
  "loading_page_with_switcher = blank_page\<lparr>languageSwitcher := Some ''en''\<rparr>"

definition loaded_page_with_switcher :: world where
  \<comment> \<open>The script runs after the document has finished loading.\<close>
  "loaded_page_with_switcher =
     blank_page\<lparr>readyState := Complete, dcl_fired := True, languageSwitcher := Some ''en''\<rparr>"

definition rtl_without_marker :: world where
  "rtl_without_marker = blank_page\<lparr>lang_attr := Some ''ar'', dir_attr := Some ''rtl''\<rparr>"

definition failing_hook :: hook where
  \<comment> \<open>\<^verbatim>\<open>function (lang) { console.log('translating'); throw new Error('no catalogue'); }\<close>\<close>
  "failing_hook lang w = (Some (Thrown ''no catalogue''), console_log ''translating'' w)"

section \<open>Properties\<close>

subsection \<open>Facts about the string primitives\<close>

lemma split_str_nonempty: "split_str sep s \<noteq> []"
  by (induction s) (auto split: list.splits)

lemma index0_split_str:
  "index0 (split_str sep s) = Some (takeWhile (\<lambda>c. c \<noteq> sep) s)"
proof (induction s)
  case Nil
  show ?case by (simp add: index0_def)
next
  case (Cons c cs)
  then show ?case
    by (cases "split_str sep cs") (auto simp: index0_def split_str_nonempty)
qed

lemma RTL_LANGUAGES_distinct: "distinct RTL_LANGUAGES"
  by (simp add: RTL_LANGUAGES_def)

lemma toLowerCase_AR: "toLowerCase ''AR'' = ''ar''"
  by code_simp

subsection \<open>Claims about the classifier\<close>

text \<open>
  C3. The classifier is total on absent-or-string inputs: an absent or empty code is LTR;
  any other code is RTL exactly when its lower-cased primary subtag (the part before the
  first hyphen) is one of the fourteen listed subtags. \<open>AR\<close>, \<open>he-IL\<close> and \<open>ar-SA\<close>
  are RTL, \<open>en-GB\<close> is LTR.
\<close>

theorem isRTLLanguage_primary_subtag:
  "isRTLLanguage None = False
   \<and> isRTLLanguage (Some []) = False
   \<and> isRTLLanguage (Some l) =
       (primary_subtag l \<in> {''ar'', ''arc'', ''dv'', ''fa'', ''ha'', ''he'', ''khw'',
                             ''ks'', ''ku'', ''ps'', ''sd'', ''ur'', ''uz'', ''yi''})
   \<and> card (set RTL_LANGUAGES) = 14
   \<and> isRTLLanguage (Some ''AR'') \<and> isRTLLanguage (Some ''he-IL'')
   \<and> isRTLLanguage (Some ''ar-SA'') \<and> \<not> isRTLLanguage (Some ''en-GB'')"
proof -
  have none: "isRTLLanguage None = False"
    by (simp add: isRTLLanguage_def)
  have empty: "isRTLLanguage (Some []) = False"
    by (simp add: isRTLLanguage_def)
  have gen: "isRTLLanguage (Some s) = (primary_subtag s \<in> set RTL_LANGUAGES)" for s
  proof (cases "s = []")
    case True
    then show ?thesis
      by (simp add: isRTLLanguage_def primary_subtag_def toLowerCase_def RTL_LANGUAGES_def)
  next
    case False
    then show ?thesis
      by (simp add: isRTLLanguage_def primary_subtag_def index0_split_str includes_arr_def)
  qed
  have set_eq: "set RTL_LANGUAGES =
      {''ar'', ''arc'', ''dv'', ''fa'', ''ha'', ''he'', ''khw'',
       ''ks'', ''ku'', ''ps'', ''sd'', ''ur'', ''uz'', ''yi''}"
    by (simp add: RTL_LANGUAGES_def)
  have card14: "card (set RTL_LANGUAGES) = 14"
    using distinct_card [OF RTL_LANGUAGES_distinct] by (simp add: RTL_LANGUAGES_def)
  have ex1: "isRTLLanguage (Some ''AR'')"
    by code_simp
  have ex2: "isRTLLanguage (Some ''he-IL'')"
    by code_simp
  have ex3: "isRTLLanguage (Some ''ar-SA'')"
    by code_simp
  have ex4: "\<not> isRTLLanguage (Some ''en-GB'')"
    by code_simp
  from none empty gen [of l] card14 ex1 ex2 ex3 ex4 show ?thesis
    unfolding set_eq by blast
qed

subsection \<open>Facts about the appliers, the sweep and the observers\<close>

lemma applyRTL_fields:
  "dir_attr (applyRTL w) = Some ''rtl''"
  "classList (applyRTL w) = classList_add ''rtl-mode'' (classList w)"
  "lang_attr (applyRTL w) = lang_attr w"
  "console (applyRTL w) = console w @ [''RTL layout applied'']"
  by (simp_all add: applyRTL_def console_log_def)

lemma applyLTR_fields:
  "dir_attr (applyLTR w) = Some ''ltr''"
  "classList (applyLTR w) = classList_remove ''rtl-mode'' (classList w)"
  "lang_attr (applyLTR w) = lang_attr w"
  "console (applyLTR w) = console w @ [''LTR layout applied'']"
  by (simp_all add: applyLTR_def console_log_def)

lemma rtl_mode_after_add: "''rtl-mode'' \<in> set (classList_add ''rtl-mode'' cs)"
  by (simp add: classList_add_def)

lemma rtl_mode_after_remove: "''rtl-mode'' \<notin> set (classList_remove ''rtl-mode'' cs)"
  by (simp add: classList_remove_def)

lemma applied_layout_matches:
  "direction_matches (applied_layout w)" "marker_matches (applied_layout w)"
  "lang_attr (applied_layout w) = lang_attr w"
  by (simp_all add: applied_layout_def direction_matches_def marker_matches_def
      applyRTL_fields applyLTR_fields rtl_mode_after_add rtl_mode_after_remove)

lemma sweep_cases:
  "sweep w =
     (if isRTLLanguage (lang_attr w) \<and> dir_attr w \<noteq> Some ''rtl'' then applyRTL w
      else if \<not> isRTLLanguage (lang_attr w) \<and> dir_attr w = Some ''rtl'' then applyLTR w
      else w)"
  by (simp add: sweep_def Let_def)

lemma sweep_lang: "lang_attr (sweep w) = lang_attr w"
  by (simp add: sweep_cases applyRTL_fields applyLTR_fields)

lemma sweep_direction: "direction_matches (sweep w)"
  by (simp add: sweep_cases direction_matches_def applyRTL_fields applyLTR_fields)

lemma classList_add_twice: "classList_add c (classList_add c cs) = classList_add c cs"
  by (simp add: classList_add_def)

lemma classList_remove_twice: "classList_remove c (classList_remove c cs) = classList_remove c cs"
  by (simp add: classList_remove_def)

lemma classList_add_present: "c \<in> set cs \<Longrightarrow> classList_add c cs = cs"
  by (simp add: classList_add_def)

lemma classList_remove_absent: "c \<notin> set cs \<Longrightarrow> classList_remove c cs = cs"
  by (induction cs) (auto simp: classList_remove_def)

lemma isRTLLanguage_ar: "isRTLLanguage (Some ''ar'')"
  by code_simp

lemma isRTLLanguage_en: "\<not> isRTLLanguage (Some ''en'')"
  by code_simp

lemma on_mutation_cases:
  "on_mutation translatePage m w =
     (if is_lang_mutation m
      then detectAndApplyLayout translatePage
             (console_log (''Language changed to: '' @ show_value (lang_attr w)) w)
      else (None, w))"
  by (simp add: on_mutation_def is_lang_mutation_def)

lemma language_observer_callback_Nil:
  "language_observer_callback translatePage [] w = (None, w)"
  by (simp add: language_observer_callback_def)

lemma language_observer_callback_Cons:
  "language_observer_callback translatePage (m # ms) w =
     (case on_mutation translatePage m w of
        (None, w') \<Rightarrow> language_observer_callback translatePage ms w'
      | (Some e, w') \<Rightarrow> (Some e, w'))"
  by (simp add: language_observer_callback_def split: prod.splits option.splits)

lemma language_observer_callback_reconcile_times:
  "language_observer_callback translatePage ms w =
     reconcile_times translatePage (length (filter is_lang_mutation ms)) w"
proof (induction ms arbitrary: w)
  case Nil
  show ?case by (simp add: language_observer_callback_Nil)
next
  case (Cons m ms)
  show ?case
  proof (cases "is_lang_mutation m")
    case True
    then show ?thesis
      by (simp add: language_observer_callback_Cons on_mutation_cases Cons.IH
          split: prod.splits option.splits)
  next
    case False
    then show ?thesis
      by (simp add: language_observer_callback_Cons on_mutation_cases Cons.IH)
  qed
qed

lemma find_Some_iff_Bex: "(find P xs \<noteq> None) = (\<exists>x \<in> set xs. P x)"
  by (induction xs) auto

lemma querySelector_widget:
  "(querySelector_class ''goog-te-banner-frame'' w \<noteq> None) = widget_present w"
  unfolding querySelector_class_def widget_present_def find_Some_iff_Bex
  by auto

lemma body_observer_callback_cases:
  "body_observer_callback ms w =
     (if widget_present w then setTimeout DetectAndApplyLayout 500 w else w)"
  using querySelector_widget [of w] by (simp add: body_observer_callback_def Let_def)

lemma widget_present_setTimeout: "widget_present (setTimeout cb d w) = widget_present w"
  by (simp add: widget_present_def setTimeout_def)

lemma body_observer_batches:
  "timeouts (foldl (\<lambda>w ms. body_observer_callback ms w) w batches) =
     timeouts w @
       (if widget_present w then replicate (length batches) (DetectAndApplyLayout, 500) else [])"
proof (induction batches arbitrary: w)
  case Nil
  show ?case by simp
next
  case (Cons b bs)
  have step: "foldl (\<lambda>w ms. body_observer_callback ms w) w (b # bs) =
      foldl (\<lambda>w ms. body_observer_callback ms w) (body_observer_callback b w) bs"
    by simp
  show ?case
  proof (cases "widget_present w")
    case True
    then have cb: "body_observer_callback b w = setTimeout DetectAndApplyLayout 500 w"
      by (simp add: body_observer_callback_cases)
    have "timeouts (foldl (\<lambda>w ms. body_observer_callback ms w) w (b # bs)) =
        timeouts (setTimeout DetectAndApplyLayout 500 w) @
          replicate (length bs) (DetectAndApplyLayout, 500)"
      unfolding step cb using True
      by (simp add: Cons.IH widget_present_setTimeout)
    then show ?thesis
      using True by (simp add: setTimeout_def)
  next
    case False
    then have cb: "body_observer_callback b w = w"
      by (simp add: body_observer_callback_cases)
    show ?thesis
      unfolding step cb using False by (simp add: Cons.IH)
  qed
qed

lemma setup_language_switcher_absent:
  "languageSwitcher w = None \<Longrightarrow> setup_language_switcher w = w"
  by (simp add: setup_language_switcher_def)

lemma switcher_changed_writes_lang_only:
  "languageSwitcher w = Some v \<Longrightarrow>
     switcher_changed w =
       w\<lparr>lang_attr := Some v,
         console := console w @ [''Language manually switched to: '' @ v]\<rparr>"
  by (simp add: switcher_changed_def console_log_def)

lemma startup_after_load_attaches_nothing:
  "dcl_fired w \<Longrightarrow> readyState w \<noteq> Loading \<Longrightarrow>
     change_listeners (startup Undefined w) = change_listeners w"
  by (simp add: startup_def script_def initRTLDetection_def detectAndApplyLayout_def
      applyLTR_def applyRTL_def console_log_def setInterval_def observeGoogleTranslate_def
      observeLanguageChanges_def observe_def addEventListener_DOMContentLoaded_def Let_def)

subsection \<open>Invariant restoration by the sweep\<close>

text \<open>
  C1. From any document state, and so after any sequence of external writes to the root's
  language attribute, one sweep tick leaves the language as it found it and the direction
  attribute equal to \<open>rtl\<close> exactly when the classifier calls that language RTL.
\<close>

theorem sweep_restores_direction:
  "direction_matches (sweep w)
   \<and> lang_attr (sweep w) = lang_attr w
   \<and> direction_matches (sweep (foldl external_write_lang w writes))
   \<and> lang_attr (sweep (foldl external_write_lang w writes))
       = lang_attr (foldl external_write_lang w writes)"
  by (simp add: sweep_lang sweep_direction)

subsection \<open>Reconcile\<close>

text \<open>
  C2. Reconcile reads the language attribute, applies RTL when the classifier says RTL and
  LTR otherwise, and then hands the world to the translation hook, with the language it
  read, when a function is registered under \<^verbatim>\<open>window.translatePage\<close>. With nothing
  registered, or a value that is no function, it completes with the applied layout.
\<close>

theorem detectAndApplyLayout_contract:
  "detectAndApplyLayout (Function f) w = f (lang_attr w) (applied_layout w)
   \<and> detectAndApplyLayout Undefined w = (None, applied_layout w)
   \<and> detectAndApplyLayout NotCallable w = (None, applied_layout w)
   \<and> applied_layout w = (if isRTLLanguage (lang_attr w) then applyRTL w else applyLTR w)
   \<and> lang_attr (applied_layout w) = lang_attr w
   \<and> direction_matches (applied_layout w)
   \<and> marker_matches (applied_layout w)"
  by (simp add: detectAndApplyLayout_def Let_def applied_layout_matches)
    (simp add: applied_layout_def)

text \<open>
  C4, as written, asks that an exception of the hook never leaves reconcile. The call has
  no handler around it: a hook that throws makes reconcile throw.
\<close>

theorem hook_failure_isolated_counterexample:
  "fst (detectAndApplyLayout (Function failing_hook) blank_page) \<noteq> None"
  by (simp add: detectAndApplyLayout_def failing_hook_def)

text \<open>
  C4, amended. When the hook throws, reconcile ends with that same exception and with the
  world the hook left behind. The applier has run before the hook is called, so the world
  the hook receives has direction attribute and marker matching the classifier's verdict,
  and they still match afterwards if the hook left language, direction and class tokens
  alone.
\<close>

theorem hook_failure_propagates:
  assumes "f (lang_attr w) (applied_layout w) = (Some e, w')"
  shows "detectAndApplyLayout (Function f) w = (Some e, w')
         \<and> direction_matches (applied_layout w)
         \<and> marker_matches (applied_layout w)
         \<and> (lang_attr w' = lang_attr (applied_layout w)
            \<and> dir_attr w' = dir_attr (applied_layout w)
            \<and> classList w' = classList (applied_layout w)
            \<longrightarrow> direction_matches w' \<and> marker_matches w')"
proof -
  have run: "detectAndApplyLayout (Function f) w = (Some e, w')"
    using assms by (simp add: detectAndApplyLayout_def applied_layout_def)
  have kept: "direction_matches w' \<and> marker_matches w'"
    if "lang_attr w' = lang_attr (applied_layout w)"
      and "dir_attr w' = dir_attr (applied_layout w)"
      and "classList w' = classList (applied_layout w)"
    using that applied_layout_matches(1,2) [of w]
    by (simp add: direction_matches_def marker_matches_def)
  from run kept show ?thesis
    by (simp add: applied_layout_matches)
qed

theorem hook_failure_propagates_witness:
  "failing_hook (lang_attr blank_page) (applied_layout blank_page)
     = (Some (Thrown ''no catalogue''), console_log ''translating'' (applied_layout blank_page))
   \<and> detectAndApplyLayout (Function failing_hook) blank_page
     = (Some (Thrown ''no catalogue''), console_log ''translating'' (applied_layout blank_page))
   \<and> direction_matches (console_log ''translating'' (applied_layout blank_page))
   \<and> marker_matches (console_log ''translating'' (applied_layout blank_page))"
proof -
  have h: "failing_hook (lang_attr blank_page) (applied_layout blank_page)
     = (Some (Thrown ''no catalogue''), console_log ''translating'' (applied_layout blank_page))"
    by (simp add: failing_hook_def)
  show ?thesis
    using h hook_failure_propagates [where f = failing_hook and w = blank_page, OF h]
    by (simp add: console_log_def)
qed

subsection \<open>The periodic sweep\<close>

text \<open>
  C5. A sweep tick classifies the current language and compares the verdict with the
  direction attribute: it runs \<open>applyRTL\<close> only for an RTL verdict with a direction other
  than \<open>rtl\<close>, \<open>applyLTR\<close> only for an LTR verdict with direction \<open>rtl\<close>, and nothing
  otherwise (the console shows which applier ran). Whatever is registered as translation
  hook, the tick never calls it and never throws.
\<close>

theorem sweep_applies_on_mismatch_only:
  "sweep w =
     (if isRTLLanguage (lang_attr w) \<and> dir_attr w \<noteq> Some ''rtl'' then applyRTL w
      else if \<not> isRTLLanguage (lang_attr w) \<and> dir_attr w = Some ''rtl'' then applyLTR w
      else w)
   \<and> console (sweep w) = console w @
       (if isRTLLanguage (lang_attr w) \<and> dir_attr w \<noteq> Some ''rtl'' then [''RTL layout applied'']
        else if \<not> isRTLLanguage (lang_attr w) \<and> dir_attr w = Some ''rtl''
        then [''LTR layout applied'']
        else [])
   \<and> run_callback translatePage SweepTick w = (None, sweep w)
   \<and> run_callback (Function f) SweepTick w = run_callback Undefined SweepTick w"
  by (simp add: sweep_cases run_callback_def applyRTL_fields applyLTR_fields)

subsection \<open>Applier\<close>

text \<open>
  C6. Running \<open>applyRTL\<close> twice gives the direction attribute and class tokens of running
  it once (only the console gains a line), and so for \<open>applyLTR\<close>; an applier whose
  target state already holds changes neither attribute nor class tokens.
\<close>

theorem appliers_idempotent:
  "applyRTL (applyRTL w) = console_log ''RTL layout applied'' (applyRTL w)
   \<and> dir_attr (applyRTL (applyRTL w)) = dir_attr (applyRTL w)
   \<and> classList (applyRTL (applyRTL w)) = classList (applyRTL w)
   \<and> applyLTR (applyLTR w) = console_log ''LTR layout applied'' (applyLTR w)
   \<and> dir_attr (applyLTR (applyLTR w)) = dir_attr (applyLTR w)
   \<and> classList (applyLTR (applyLTR w)) = classList (applyLTR w)
   \<and> (dir_attr w = Some ''rtl'' \<and> ''rtl-mode'' \<in> set (classList w)
        \<longrightarrow> applyRTL w = console_log ''RTL layout applied'' w)
   \<and> (dir_attr w = Some ''ltr'' \<and> ''rtl-mode'' \<notin> set (classList w)
        \<longrightarrow> applyLTR w = console_log ''LTR layout applied'' w)"
proof -
  have r2: "applyRTL (applyRTL w) = console_log ''RTL layout applied'' (applyRTL w)"
    by (simp add: applyRTL_def console_log_def classList_add_twice)
  have l2: "applyLTR (applyLTR w) = console_log ''LTR layout applied'' (applyLTR w)"
    by (simp add: applyLTR_def console_log_def classList_remove_twice)
  have r1: "applyRTL w = console_log ''RTL layout applied'' w"
    if "dir_attr w = Some ''rtl''" and "''rtl-mode'' \<in> set (classList w)"
    using that by (simp add: applyRTL_def console_log_def classList_add_present)
  have l1: "applyLTR w = console_log ''LTR layout applied'' w"
    if "dir_attr w = Some ''ltr''" and "''rtl-mode'' \<notin> set (classList w)"
    using that by (simp add: applyLTR_def console_log_def classList_remove_absent)
  show ?thesis
    using r1 l1 by (simp add: r2 l2 console_log_def)
qed

theorem appliers_idempotent_witness:
  "dir_attr (applyRTL blank_page) = Some ''rtl''
   \<and> ''rtl-mode'' \<in> set (classList (applyRTL blank_page))
   \<and> applyRTL (applyRTL blank_page) = console_log ''RTL layout applied'' (applyRTL blank_page)
   \<and> dir_attr (applyLTR blank_page) = Some ''ltr''
   \<and> ''rtl-mode'' \<notin> set (classList (applyLTR blank_page))
   \<and> applyLTR (applyLTR blank_page) = console_log ''LTR layout applied'' (applyLTR blank_page)"
proof -
  have r: "dir_attr (applyRTL blank_page) = Some ''rtl''
      \<and> ''rtl-mode'' \<in> set (classList (applyRTL blank_page))"
    by (simp add: applyRTL_fields rtl_mode_after_add)
  have l: "dir_attr (applyLTR blank_page) = Some ''ltr''
      \<and> ''rtl-mode'' \<notin> set (classList (applyLTR blank_page))"
    by (simp add: applyLTR_fields rtl_mode_after_remove)
  show ?thesis
    using r l appliers_idempotent [of "applyRTL blank_page"]
      appliers_idempotent [of "applyLTR blank_page"]
    by simp
qed

subsection \<open>Attribute watch\<close>

text \<open>
  C7, as written, has reconcile run for every language-attribute mutation of a batch. A
  hook that throws ends \<^verbatim>\<open>forEach\<close>: of two language mutations only the first is
  reconciled.
\<close>

theorem language_observer_batch_counterexample:
  "length (filter is_lang_mutation [lang_mutation, lang_mutation]) = 2
   \<and> language_observer_callback (Function failing_hook) [lang_mutation, lang_mutation] blank_page
     = (Some (Thrown ''no catalogue''),
        blank_page\<lparr>dir_attr := Some ''ltr'',
                   console := [''Language changed to: en'', ''LTR layout applied'',
                               ''translating'']\<rparr>)"
  by (simp add: language_observer_callback_def on_mutation_cases is_lang_mutation_def
      lang_mutation_def detectAndApplyLayout_def failing_hook_def console_log_def
      show_value_def applyLTR_def classList_remove_def blank_page_def isRTLLanguage_en)

text \<open>
  C7, amended. For one mutation the callback reconciles exactly when it is an attribute
  mutation named \<open>lang\<close>. For a batch it logs and reconciles once per such mutation, in
  order, until a reconcile throws, which ends the batch; a batch without language
  mutations, such as a class edit, changes nothing.
\<close>

theorem language_observer_filters:
  "on_mutation translatePage m w =
     (if is_lang_mutation m
      then detectAndApplyLayout translatePage
             (console_log (''Language changed to: '' @ show_value (lang_attr w)) w)
      else (None, w))
   \<and> language_observer_callback translatePage ms w =
       reconcile_times translatePage (length (filter is_lang_mutation ms)) w
   \<and> (filter is_lang_mutation ms = []
        \<longrightarrow> language_observer_callback translatePage ms w = (None, w))"
  by (simp add: on_mutation_cases language_observer_callback_reconcile_times)

theorem language_observer_filters_witness:
  "filter is_lang_mutation [class_mutation] = []
   \<and> language_observer_callback (Function failing_hook) [class_mutation] blank_page
     = (None, blank_page)"
proof -
  have h: "filter is_lang_mutation [class_mutation] = []"
    by (simp add: is_lang_mutation_def class_mutation_def)
  show ?thesis
    using h language_observer_filters
      [where ms = "[class_mutation]" and translatePage = "Function failing_hook"
         and w = blank_page]
    by simp
qed

subsection \<open>Manual switch handler\<close>

text \<open>
  C8. The switch handler is attached from a \<^verbatim>\<open>DOMContentLoaded\<close> listener that the
  script registers without looking at the ready state. When the script runs in a document
  that has already loaded, the detection starts at once but the listener never runs: the
  control has no change handler and picking a language leaves the language attribute as
  it was. When the script runs during loading, the handler is attached and writes the
  picked value.
\<close>

theorem switcher_not_attached_after_load:
  "change_listeners (startup Undefined loaded_page_with_switcher) = []
   \<and> lang_attr (change_event Undefined ''ar'' (startup Undefined loaded_page_with_switcher))
       = Some ''en''
   \<and> intervals (startup Undefined loaded_page_with_switcher) = [(SweepTick, 1000)]
   \<and> change_listeners (startup Undefined loading_page_with_switcher) = [SwitcherChanged]
   \<and> lang_attr (change_event Undefined ''ar'' (startup Undefined loading_page_with_switcher))
       = Some ''ar''"
  by (simp add: startup_def script_def initRTLDetection_def detectAndApplyLayout_def
      loaded_page_with_switcher_def loading_page_with_switcher_def blank_page_def
      isRTLLanguage_en applyLTR_def console_log_def classList_remove_def
      setInterval_def observeGoogleTranslate_def observeLanguageChanges_def observe_def
      addEventListener_DOMContentLoaded_def addEventListener_change_def
      change_event_def domContentLoaded_def run_callback_def
      setup_language_switcher_def switcher_changed_def)

subsection \<open>Widget watch\<close>

text \<open>
  C9. On every batch the body observer schedules one 500 ms timeout for reconcile when some
  element carries the widget's frame class, and changes nothing otherwise; over a run of
  batches with the widget present it schedules one timeout per batch. A timeout is
  one-shot: when it comes due it is removed and reconcile runs.
\<close>

theorem widget_watch_schedules:
  "body_observer_callback ms w =
     (if widget_present w then w\<lparr>timeouts := timeouts w @ [(DetectAndApplyLayout, 500)]\<rparr>
      else w)
   \<and> timeouts (foldl (\<lambda>w ms. body_observer_callback ms w) w batches) =
       timeouts w @
         (if widget_present w then replicate (length batches) (DetectAndApplyLayout, 500)
          else [])
   \<and> intervals (body_observer_callback ms w) = intervals w
   \<and> fire_timeout translatePage (w\<lparr>timeouts := [(DetectAndApplyLayout, 500)]\<rparr>)
       = detectAndApplyLayout translatePage (w\<lparr>timeouts := []\<rparr>)"
  by (simp add: body_observer_batches)
    (simp add: body_observer_callback_cases setTimeout_def fire_timeout_def run_callback_def)

subsection \<open>What the sweep leaves alone\<close>

text \<open>
  C10. The sweep looks at the direction attribute only: when that already matches the
  classifier's verdict the tick changes nothing, whatever the class tokens are.
\<close>

theorem sweep_ignores_marker:
  "direction_matches w \<Longrightarrow> sweep w = w"
  by (auto simp: sweep_cases direction_matches_def)

theorem sweep_ignores_marker_witness:
  "direction_matches rtl_without_marker
   \<and> \<not> marker_matches rtl_without_marker
   \<and> sweep rtl_without_marker = rtl_without_marker"
proof -
  have h: "direction_matches rtl_without_marker"
    by (simp add: direction_matches_def rtl_without_marker_def isRTLLanguage_ar)
  have m: "\<not> marker_matches rtl_without_marker"
    by (simp add: marker_matches_def rtl_without_marker_def blank_page_def isRTLLanguage_ar)
  show ?thesis
    using h m sweep_ignores_marker [OF h] by simp
qed

end
